theory Spec2Isabelle
  imports Complex_Main
begin

section \<open>The program \<open>4_Pilares.py\<close>: sensors, alerts and lights\<close>

text \<open>
  The program keeps a sliding window of calibrated readings per sensor, decides per
  sensor class whether the window is alarming, prints one line per notifier for every
  alarming sensor, and switches a light flag from a motion sensor.

  Python floats are modelled as \<^typ>\<open>real\<close>: addition, the mean and the standard
  deviation are exact, and there is no NaN or infinity. Python's \<open>int\<close> is \<^typ>\<open>int\<close>.
  The functions of the standard library that the program calls (\<open>statistics.mean\<close>,
  \<open>statistics.stdev\<close>, \<open>list.pop\<close>, the format \<open>:.2f\<close>) are modelled from their
  documentation, with the exceptions they raise as values of \<open>error\<close>.

  A Python string is modelled as the list of the bytes of its UTF-8 encoding, one
  \<^typ>\<open>char\<close> per byte: a character outside ASCII is the bytes that encode it, written
  \<open>CHR 0x..\<close>.
\<close>

subsection \<open>Errors and the library functions\<close>

datatype error = StatisticsError | IndexError

text \<open>Sequencing of calls that may raise: the first exception ends the computation.\<close>

definition bind :: "error + 'a \<Rightarrow> ('a \<Rightarrow> error + 'b) \<Rightarrow> error + 'b" where
  "bind r f = (case r of Inl e \<Rightarrow> Inl e | Inr x \<Rightarrow> f x)"

text \<open>\<open>statistics.mean(data)\<close> raises \<open>StatisticsError\<close> on empty data.\<close>

definition mean :: "real list \<Rightarrow> error + real" where
  "mean xs = (if xs = [] then Inl StatisticsError
              else Inr (sum_list xs / real (length xs)))"

text \<open>
  \<open>statistics.stdev(data)\<close> is the square root of the sample variance (divisor
  \<open>n - 1\<close>) and raises \<open>StatisticsError\<close> on fewer than two data points.
\<close>

definition stdev :: "real list \<Rightarrow> error + real" where
  "stdev xs = (if length xs < 2 then Inl StatisticsError
               else (let m = sum_list xs / real (length xs)
                     in Inr (sqrt (sum_list (map (\<lambda>x. (x - m)\<^sup>2) xs) / real (length xs - 1)))))"

text \<open>\<open>xs.pop(0)\<close> removes the first element and raises \<open>IndexError\<close> on an empty list.\<close>

definition pop0 :: "'a list \<Rightarrow> error + 'a list" where
  "pop0 xs = (case xs of [] \<Rightarrow> Inl IndexError | x # rest \<Rightarrow> Inr rest)"

subsection \<open>The sensor classes\<close>

text \<open>
  \<open>Sensor\<close> is an abstract dataclass with three concrete subclasses, each adding one
  threshold field. The field \<open>clase\<close> holds the subclass of the object together with
  that threshold. The field \<open>id\<close> of the source is \<open>ident\<close> here (\<open>id\<close> is the identity
  function of HOL); \<open>_calibracion\<close> and \<open>_buffer\<close> lose their underscore.
\<close>

datatype clase =
    SensorTemperatura real   \<comment> \<open>\<open>umbral\<close>\<close>
  | SensorVibracion real     \<comment> \<open>\<open>rms_umbral\<close>\<close>
  | SensorMovimento real     \<comment> \<open>\<open>mov_umbral\<close>\<close>

record Sensor =
  ident :: string
  ventana :: int
  calibracion :: real
  buffer :: "real list"
  clase :: clase

text \<open>The constructors as \<open>__main__\<close> calls them: every field but the id at its default.\<close>

definition nuevo_SensorTemperatura :: "string \<Rightarrow> Sensor" where
  "nuevo_SensorTemperatura i =
     \<lparr>ident = i, ventana = 5, calibracion = 0, buffer = [], clase = SensorTemperatura 80\<rparr>"

definition nuevo_SensorVibracion :: "string \<Rightarrow> Sensor" where
  "nuevo_SensorVibracion i =
     \<lparr>ident = i, ventana = 5, calibracion = 0, buffer = [], clase = SensorVibracion (5 / 2)\<rparr>"

definition nuevo_SensorMovimento :: "string \<Rightarrow> Sensor" where
  "nuevo_SensorMovimento i =
     \<lparr>ident = i, ventana = 5, calibracion = 0, buffer = [], clase = SensorMovimento 1\<rparr>"

text \<open>
  \<open>Sensor.leer\<close>: append the calibrated value, then drop the oldest one when the buffer
  is longer than the window.
\<close>

definition leer :: "real \<Rightarrow> Sensor \<Rightarrow> error + Sensor" where
  "leer valor s =
     (let v = valor + calibracion s;
          s1 = s\<lparr>buffer := buffer s @ [v]\<rparr>
      in if int (length (buffer s1)) > ventana s1
         then bind (pop0 (buffer s1)) (\<lambda>rest. Inr (s1\<lparr>buffer := rest\<rparr>))
         else Inr s1)"

text \<open>The caller's loop \<open>for val in vals: s.leer(val)\<close>.\<close>

fun leer_todos :: "real list \<Rightarrow> Sensor \<Rightarrow> error + Sensor" where
  "leer_todos [] s = Inr s"
| "leer_todos (val # vals) s = bind (leer val s) (leer_todos vals)"

text \<open>\<open>Sensor.promedio\<close>: the mean of the buffer, \<open>0.0\<close> when it is empty.\<close>

definition promedio :: "Sensor \<Rightarrow> error + real" where
  "promedio s = (if buffer s \<noteq> [] then mean (buffer s) else Inr 0)"

text \<open>
  The same property as a call on a mutable object: the result together with the object
  after the call. Two things could change the object. The body could assign to a field;
  it has one conditional expression and no assignment. And \<open>mean\<close> receives the list
  object \<open>self._buffer\<close> itself, not a copy; \<open>mean_llamada\<close> is that call with the list
  after it, which \<open>statistics.mean\<close> only iterates over.
\<close>

definition mean_llamada :: "real list \<Rightarrow> (error + real) \<times> real list" where
  "mean_llamada xs = (mean xs, xs)"

definition promedio_llamada :: "Sensor \<Rightarrow> (error + real) \<times> Sensor" where
  "promedio_llamada s =
     (if buffer s \<noteq> []
      then (case mean_llamada (buffer s) of (res, b) \<Rightarrow> (res, s\<lparr>buffer := b\<rparr>))
      else (Inr 0, s))"

text \<open>\<open>en_alerta\<close>, dispatched on the class of the object.\<close>

definition en_alerta :: "Sensor \<Rightarrow> error + bool" where
  "en_alerta s =
     (case clase s of
        SensorTemperatura umbral \<Rightarrow> bind (promedio s) (\<lambda>p. Inr (p \<ge> umbral))
      | SensorVibracion rms_umbral \<Rightarrow> bind (promedio s) (\<lambda>p. Inr (\<bar>p\<bar> \<ge> rms_umbral))
      | SensorMovimento mov_umbral \<Rightarrow>
          if length (buffer s) < 2 then Inr False
          else bind (stdev (buffer s)) (\<lambda>desviacion_estandar.
                 Inr (desviacion_estandar \<ge> mov_umbral)))"

subsection \<open>Objects shared by reference\<close>

text \<open>
  \<open>GestorAlertas\<close> and \<open>ControladorLuces\<close> keep references to sensor objects that the
  caller goes on mutating with \<open>leer\<close>. The store maps each reference to the current
  state of its object; a method called through a reference sees the state at the call.
\<close>

type_synonym ref = nat
type_synonym store = "ref \<Rightarrow> Sensor"

definition leer_ref :: "ref \<Rightarrow> real \<Rightarrow> store \<Rightarrow> error + store" where
  "leer_ref r valor h = bind (leer valor (h r)) (\<lambda>s'. Inr (h(r := s')))"

text \<open>Reading the property through a reference: the result and the store after the call.\<close>

definition promedio_ref :: "ref \<Rightarrow> store \<Rightarrow> (error + real) \<times> store" where
  "promedio_ref r h = (case promedio_llamada (h r) of (res, s') \<Rightarrow> (res, h(r := s')))"

subsection \<open>Formatting and notifiers\<close>

text \<open>
  The format \<open>:.2f\<close> writes the number rounded to the nearest hundredth, ties to the even
  neighbour, as an optional minus sign, the integer digits, a point and two digits. The
  sign is that of the number before rounding (\<open>-0.001\<close> gives \<open>-0.00\<close>).
\<close>

definition redondear_par :: "real \<Rightarrow> int" where
  "redondear_par y =
     (let f = \<lfloor>y\<rfloor>; r = y - of_int f
      in if r < 1 / 2 then f else if r > 1 / 2 then f + 1
         else if even f then f else f + 1)"

definition digito :: "nat \<Rightarrow> char" where
  "digito d = ''0123456789'' ! d"

fun decimal :: "nat \<Rightarrow> string" where
  "decimal n = (if n < 10 then [digito n] else decimal (n div 10) @ [digito (n mod 10)])"

declare decimal.simps [simp del]

definition formato_2f :: "real \<Rightarrow> string" where
  "formato_2f x =
     (let n = nat (redondear_par (\<bar>x\<bar> * 100))
      in (if x < 0 then ''-'' else []) @ decimal (n div 100) @ ''.''
         @ [digito (n mod 100 div 10), digito (n mod 10)])"

text \<open>
  The two notifier classes. Standard output is the list of the strings printed so far,
  one per call of \<open>print\<close>; \<open>enviar\<close> prints once.
\<close>

datatype Notificador =
    NotificadorEmail string     \<comment> \<open>\<open>_destinatario\<close>\<close>
  | NotificadorWebhook string   \<comment> \<open>\<open>_url\<close>\<close>

type_synonym salida = "string list"

fun enviar :: "Notificador \<Rightarrow> string \<Rightarrow> salida \<Rightarrow> salida" where
  "enviar (NotificadorEmail destinatario) mensaje out =
     out @ [''[EMAIL a '' @ destinatario @ ''] '' @ mensaje]"
| "enviar (NotificadorWebhook url) mensaje out =
     out @ [''[WEBHOOK '' @ url @ ''] '' @ mensaje]"

subsection \<open>The alert manager\<close>

record GestorAlertas =
  sensores :: "ref list"
  notificadores :: "Notificador list"

text \<open>The inner loop \<open>for n in self._notificadores: n.enviar(msg)\<close>.\<close>

fun enviar_a_todos :: "Notificador list \<Rightarrow> string \<Rightarrow> salida \<Rightarrow> salida" where
  "enviar_a_todos [] msg out = out"
| "enviar_a_todos (n # ns) msg out = enviar_a_todos ns msg (enviar n msg out)"

text \<open>
  The message literal of the source has the character U+E092, of the private use area,
  between \<open>ALERTA\<close> and the space before \<open>Sensor\<close>: the bytes EE 82 92.
\<close>

definition u_e092 :: string where
  "u_e092 = [CHR 0xEE, CHR 0x82, CHR 0x92]"

text \<open>The outer loop over the sensors, from the first reference on.\<close>

fun evaluar_desde :: "ref list \<Rightarrow> Notificador list \<Rightarrow> store \<Rightarrow> salida \<Rightarrow> error + salida" where
  "evaluar_desde [] ns h out = Inr out"
| "evaluar_desde (r # rs) ns h out =
     bind (en_alerta (h r)) (\<lambda>alerta.
       if alerta
       then bind (promedio (h r)) (\<lambda>p.
              let msg = ''ALERTA'' @ u_e092 @ '' Sensor '' @ ident (h r)
                        @ '' en umbral (avg='' @ formato_2f p @ '')''
              in evaluar_desde rs ns h (enviar_a_todos ns msg out))
       else evaluar_desde rs ns h out)"

definition evaluar_y_notificar :: "GestorAlertas \<Rightarrow> store \<Rightarrow> salida \<Rightarrow> error + salida" where
  "evaluar_y_notificar g h out = evaluar_desde (sensores g) (notificadores g) h out"

subsection \<open>The light controller\<close>

record ControladorLuces =
  sensor :: ref
  luces_encendidas :: bool

definition nuevo_ControladorLuces :: "ref \<Rightarrow> ControladorLuces" where
  "nuevo_ControladorLuces sensor_movimiento =
     \<lparr>sensor = sensor_movimiento, luces_encendidas = False\<rparr>"

definition encender_luces :: "ControladorLuces \<Rightarrow> salida \<Rightarrow> ControladorLuces \<times> salida" where
  "encender_luces c out =
     (if \<not> luces_encendidas c
      then (c\<lparr>luces_encendidas := True\<rparr>, out @ [''LUCES ENCENDIDAS''])
      else (c, out))"

definition apagar_luces :: "ControladorLuces \<Rightarrow> salida \<Rightarrow> ControladorLuces \<times> salida" where
  "apagar_luces c out =
     (if luces_encendidas c
      then (c\<lparr>luces_encendidas := False\<rparr>, out @ [''LUCES APAGADAS''])
      else (c, out))"

definition verificar_movimiento ::
    "ControladorLuces \<Rightarrow> store \<Rightarrow> salida \<Rightarrow> error + ControladorLuces \<times> salida" where
  "verificar_movimiento c h out =
     bind (en_alerta (h (sensor c))) (\<lambda>alerta.
       if alerta then Inr (encender_luces c out)
       else (case apagar_luces c out of
               (c', out') \<Rightarrow> Inr (c', out' @ [''No hay suficiente movimiento detectado''])))"

subsection \<open>The caller\<close>

text \<open>
  The script that drives the classes holds the sensor objects, one light controller and
  the console, and makes one call after another: a reading on a sensor, a check of the
  controller, or an evaluation of an alert manager.
\<close>

record mundo =
  almacen :: store
  controlador :: ControladorLuces
  consola :: salida

datatype paso = Leer ref real | Verificar | Evaluar GestorAlertas

fun ejecutar :: "paso \<Rightarrow> mundo \<Rightarrow> error + mundo" where
  "ejecutar (Leer r valor) w =
     bind (leer_ref r valor (almacen w)) (\<lambda>h'. Inr (w\<lparr>almacen := h'\<rparr>))"
| "ejecutar Verificar w =
     bind (verificar_movimiento (controlador w) (almacen w) (consola w))
       (\<lambda>(c', out'). Inr (w\<lparr>controlador := c', consola := out'\<rparr>))"
| "ejecutar (Evaluar g) w =
     bind (evaluar_y_notificar g (almacen w) (consola w)) (\<lambda>out'. Inr (w\<lparr>consola := out'\<rparr>))"

subsection \<open>Notions of the specification\<close>

text \<open>The last \<open>w\<close> elements of a list (all of it when it is shorter).\<close>

definition ultimos :: "int \<Rightarrow> 'a list \<Rightarrow> 'a list" where
  "ultimos w xs = drop (length xs - nat w) xs"

text \<open>The average of the specification: the arithmetic mean, 0 for no values.\<close>

definition media :: "real list \<Rightarrow> real" where
  "media xs = (if xs = [] then 0 else sum_list xs / real (length xs))"

text \<open>A sensor is alarming when \<open>en_alerta\<close> returns \<open>True\<close>.\<close>

definition alarmado :: "Sensor \<Rightarrow> bool" where
  "alarmado s \<longleftrightarrow> en_alerta s = Inr True"

text \<open>
  The message for an alarming sensor: the word \<open>ALERTA\<close> followed by the character
  U+E092, then the id of the sensor and its average with two decimals.
\<close>

definition mensaje_alerta :: "Sensor \<Rightarrow> string" where
  "mensaje_alerta s =
     ''ALERTA'' @ u_e092 @ '' Sensor '' @ ident s @ '' en umbral (avg=''
     @ formato_2f (media (buffer s)) @ '')''"

subsection \<open>Example objects\<close>

text \<open>
  The objects of \<open>__main__\<close> after its readings, with the vibration sensor at 3.0 twice
  so that two of the three sensors are alarming, behind the references 0, 1 and 2.
\<close>

definition almacen_ejemplo :: store where
  "almacen_ejemplo =
     (\<lambda>r. if r = 0 then (nuevo_SensorTemperatura ''T1'')\<lparr>buffer := [90, 104, 156]\<rparr>
          else if r = 1 then (nuevo_SensorVibracion ''V1'')\<lparr>buffer := [3, 3]\<rparr>
          else (nuevo_SensorMovimento ''M1'')\<lparr>buffer := [0, 1, 1 / 5, 3 / 2]\<rparr>)"

definition gestor_ejemplo :: GestorAlertas where
  "gestor_ejemplo = \<lparr>sensores = [0, 1, 2],
     notificadores = [NotificadorEmail ''example@example.com'',
                      NotificadorWebhook ''http://webhook.com'']\<rparr>"

text \<open>A store whose motion sensor has the given buffer.\<close>

definition almacen_movimiento :: "real list \<Rightarrow> store" where
  "almacen_movimiento lecturas = (\<lambda>r. (nuevo_SensorMovimento ''M1'')\<lparr>buffer := lecturas\<rparr>)"

section \<open>Properties\<close>

subsection \<open>The sliding window\<close>

text \<open>
  \<open>leer\<close> never raises: the list it pops from has just been appended to.
\<close>

lemma leer_total:
  "leer valor s = Inr (s\<lparr>buffer :=
      (if int (length (buffer s)) + 1 > ventana s
       then tl (buffer s @ [valor + calibracion s])
       else buffer s @ [valor + calibracion s])\<rparr>)"
  by (cases "buffer s") (simp_all add: leer_def Let_def bind_def pop0_def)

lemma tl_as_drop: "tl ys = drop (Suc 0) ys"
  by (simp add: drop_Suc)

lemma leer_buffer_bound:
  assumes "int (length (buffer s)) \<le> ventana s"
  shows "\<exists>s'. leer valor s = Inr s' \<and> int (length (buffer s')) \<le> ventana s'
     \<and> buffer s' = ultimos (ventana s) (buffer s @ [valor + calibracion s])
     \<and> s' = s\<lparr>buffer := buffer s'\<rparr>"
proof (cases "int (length (buffer s)) + 1 > ventana s")
  case True
  with assms have len: "int (length (buffer s)) = ventana s" by simp
  then have "length (buffer s @ [valor + calibracion s]) - nat (ventana s) = Suc 0" by simp
  then have "ultimos (ventana s) (buffer s @ [valor + calibracion s]) = tl (buffer s @ [valor + calibracion s])"
    unfolding ultimos_def tl_as_drop by (rule arg_cong2 [where f = drop]) simp
  with True len show ?thesis by (simp add: leer_total)
next
  case False
  then have "length (buffer s) + 1 - nat (ventana s) = 0" by simp
  then have "ultimos (ventana s) (buffer s @ [valor + calibracion s]) = buffer s @ [valor + calibracion s]"
    by (simp add: ultimos_def)
  with False show ?thesis by (simp add: leer_total)
qed

lemma ultimos_ultimos:
  "ultimos w (ultimos w xs @ ys) = ultimos w (xs @ ys)"
  by (cases "length xs \<le> nat w") (auto simp: ultimos_def ac_simps)

lemma leer_todos_buffer:
  assumes "int (length (buffer s)) \<le> ventana s"
  shows "leer_todos vals s =
     Inr (s\<lparr>buffer := ultimos (ventana s) (buffer s @ map (\<lambda>v. v + calibracion s) vals)\<rparr>)"
  using assms
proof (induction vals arbitrary: s)
  case Nil
  then show ?case by (simp add: ultimos_def)
next
  case (Cons val vals)
  from leer_buffer_bound [OF Cons.prems, of val] obtain s' where
    s': "leer val s = Inr s'" "int (length (buffer s')) \<le> ventana s'"
      "buffer s' = ultimos (ventana s) (buffer s @ [val + calibracion s])"
      "s' = s\<lparr>buffer := buffer s'\<rparr>" by blast
  have same: "ventana s' = ventana s" "calibracion s' = calibracion s"
    by (subst s'(4), simp)+
  have "leer_todos (val # vals) s = leer_todos vals s'"
    by (simp add: s'(1) bind_def)
  also have "\<dots> = Inr (s'\<lparr>buffer := ultimos (ventana s') (buffer s' @ map (\<lambda>v. v + calibracion s') vals)\<rparr>)"
    by (rule Cons.IH [OF s'(2)])
  also have "ultimos (ventana s') (buffer s' @ map (\<lambda>v. v + calibracion s') vals)
      = ultimos (ventana s) (buffer s @ map (\<lambda>v. v + calibracion s) (val # vals))"
    using ultimos_ultimos [of "ventana s" "buffer s @ [val + calibracion s]" "map (\<lambda>v. v + calibracion s) vals"]
    by (simp add: same s'(3))
  also have "s'\<lparr>buffer := ultimos (ventana s) (buffer s @ map (\<lambda>v. v + calibracion s) (val # vals))\<rparr>
     = s\<lparr>buffer := ultimos (ventana s) (buffer s @ map (\<lambda>v. v + calibracion s) (val # vals))\<rparr>"
    by (subst s'(4)) simp
  finally show ?case .
qed

lemma length_ultimos: "length (ultimos w xs) = min (length xs) (nat w)"
  by (simp add: ultimos_def)


text \<open>
  Claim C1. Take a sensor with a window of at least 1 and an empty buffer, and record any
  sequence of values. No call raises; the buffer is never longer than the window; it
  holds the last \<open>ventana\<close> calibrated values (each value plus \<open>calibracion\<close>), oldest
  first; and once more values than the window have been recorded, the buffer has exactly
  \<open>ventana\<close> elements and \<open>promedio\<close> is their sum divided by \<open>ventana\<close>. The statement
  holds for every sequence, hence after every call of a longer one.
\<close>

theorem sliding_window_average:
  assumes "1 \<le> ventana s" and "buffer s = []"
  shows "\<exists>s'. leer_todos vals s = Inr s'
      \<and> int (length (buffer s')) \<le> ventana s
      \<and> buffer s' = ultimos (ventana s) (map (\<lambda>valor. valor + calibracion s) vals)
      \<and> (ventana s < int (length vals) \<longrightarrow>
           length (buffer s') = nat (ventana s)
           \<and> promedio s' = Inr (sum_list (ultimos (ventana s)
                 (map (\<lambda>valor. valor + calibracion s) vals)) / real_of_int (ventana s)))"
proof -
  let ?cal = "map (\<lambda>valor. valor + calibracion s) vals"
  let ?s' = "s\<lparr>buffer := ultimos (ventana s) ?cal\<rparr>"
  have run: "leer_todos vals s = Inr ?s'"
    using leer_todos_buffer [of s vals] assms by simp
  have bound: "int (length (buffer ?s')) \<le> ventana s"
    using assms(1) by (simp add: length_ultimos)
  have full: "length (buffer ?s') = nat (ventana s)
      \<and> promedio ?s' = Inr (sum_list (ultimos (ventana s) ?cal) / real_of_int (ventana s))"
    if "ventana s < int (length vals)"
  proof -
    from that assms(1) have len: "length (ultimos (ventana s) ?cal) = nat (ventana s)"
      by (simp add: length_ultimos)
    with assms(1) have "ultimos (ventana s) ?cal \<noteq> []" by auto
    with len assms(1) show ?thesis by (simp add: promedio_def mean_def)
  qed
  from run bound full show ?thesis by simp
qed

theorem sliding_window_average_witness:
  "\<exists>s'. leer_todos [1, 2, 4] (nuevo_SensorTemperatura ''T1''\<lparr>ventana := 2, calibracion := 1\<rparr>) = Inr s'
      \<and> buffer s' = [3, 5] \<and> promedio s' = Inr 4"
  using sliding_window_average [of "nuevo_SensorTemperatura ''T1''\<lparr>ventana := 2, calibracion := 1\<rparr>" "[1, 2, 4]"]
  by (auto simp add: nuevo_SensorTemperatura_def ultimos_def simp del: leer_todos.simps)

text \<open>
  Claim C9. On a sensor with an empty buffer \<open>promedio\<close> returns exactly 0. And it is
  pure: for every sensor, empty or not, the call returns its result and leaves the object
  as it was, the buffer and every other field; through a reference it leaves the whole
  store as it was, so no other sensor changes either. The result of the call is the value
  of \<open>promedio\<close> used everywhere else.
\<close>

theorem promedio_vacio:
  "(buffer s = [] \<longrightarrow> promedio s = Inr 0 \<and> promedio_llamada s = (Inr 0, s))
   \<and> promedio_llamada s = (promedio s, s)
   \<and> buffer (snd (promedio_llamada s)) = buffer s
   \<and> promedio_ref r h = (promedio (h r), h)"
proof -
  have call: "promedio_llamada s = (promedio s, s)" for s
    by (simp add: promedio_llamada_def mean_llamada_def promedio_def)
  have empty: "promedio s = Inr 0" if "buffer s = []"
    using that by (simp add: promedio_def)
  have through: "promedio_ref r h = (promedio (h r), h)"
    by (simp add: promedio_ref_def call)
  from call [of s] empty through show ?thesis by simp
qed

theorem promedio_vacio_witness:
  "buffer (nuevo_SensorVibracion ''V1'') = []
   \<and> promedio (nuevo_SensorVibracion ''V1'') = Inr 0
   \<and> promedio_llamada (nuevo_SensorVibracion ''V1'')
       = (Inr 0, nuevo_SensorVibracion ''V1'')
   \<and> promedio_llamada ((nuevo_SensorVibracion ''V1'')\<lparr>buffer := [1, 2]\<rparr>)
       = (Inr (3 / 2), (nuevo_SensorVibracion ''V1'')\<lparr>buffer := [1, 2]\<rparr>)"
proof -
  have e: "buffer (nuevo_SensorVibracion ''V1'') = []"
    by (simp add: nuevo_SensorVibracion_def)
  have p: "promedio ((nuevo_SensorVibracion ''V1'')\<lparr>buffer := [1, 2]\<rparr>) = Inr (3 / 2)"
    by (simp add: promedio_def mean_def)
  from promedio_vacio [of "nuevo_SensorVibracion ''V1''"] e
    promedio_vacio [of "(nuevo_SensorVibracion ''V1'')\<lparr>buffer := [1, 2]\<rparr>"] p
  show ?thesis by simp
qed

text \<open>
  Claim C10. On a sensor with window 0 and an empty buffer every call of \<open>leer\<close> returns
  normally and leaves the sensor as it was: the value appended is popped at once. So
  after any sequence of calls the buffer is empty, \<open>promedio\<close> is 0 and the buffer is no
  longer than the window.
\<close>

theorem ventana_cero:
  assumes "ventana s = 0" and "buffer s = []"
  shows "leer valor s = Inr s
      \<and> (\<exists>s'. leer_todos vals s = Inr s' \<and> buffer s' = [] \<and> promedio s' = Inr 0
            \<and> int (length (buffer s')) \<le> ventana s')"
proof -
  have one: "leer valor s = Inr s" for valor
    using assms by (simp add: leer_total)
  have "leer_todos vals s = Inr s"
    by (induction vals) (simp_all add: one bind_def)
  with one assms show ?thesis by (simp add: promedio_def)
qed

theorem ventana_cero_witness:
  "leer 7 (nuevo_SensorMovimento ''M1''\<lparr>ventana := 0\<rparr>) = Inr (nuevo_SensorMovimento ''M1''\<lparr>ventana := 0\<rparr>)
   \<and> (\<exists>s'. leer_todos [7, 8, 9] (nuevo_SensorMovimento ''M1''\<lparr>ventana := 0\<rparr>) = Inr s'
          \<and> buffer s' = [] \<and> promedio s' = Inr 0)"
  using ventana_cero [of "nuevo_SensorMovimento ''M1''\<lparr>ventana := 0\<rparr>" 7 "[7, 8, 9]"]
  by (auto simp add: nuevo_SensorMovimento_def simp del: leer_todos.simps)

subsection \<open>The alert predicates\<close>

text \<open>
  Neither \<open>promedio\<close> nor \<open>en_alerta\<close> raises: each call of the statistics library is
  guarded by the length test it needs.
\<close>

lemma promedio_total: "promedio s = Inr (media (buffer s))"
  by (simp add: promedio_def mean_def media_def)

lemma en_alerta_total: "\<exists>b. en_alerta s = Inr b"
  by (cases "clase s") (auto simp add: en_alerta_def promedio_total bind_def stdev_def Let_def)

lemma leer_todos_nuevo_T:
  "length vals \<le> 5 \<Longrightarrow>
   leer_todos vals (nuevo_SensorTemperatura i) = Inr ((nuevo_SensorTemperatura i)\<lparr>buffer := vals\<rparr>)"
  using leer_todos_buffer [of "nuevo_SensorTemperatura i" vals]
  by (simp add: nuevo_SensorTemperatura_def ultimos_def)

lemma leer_todos_nuevo_V:
  "length vals \<le> 5 \<Longrightarrow>
   leer_todos vals (nuevo_SensorVibracion i) = Inr ((nuevo_SensorVibracion i)\<lparr>buffer := vals\<rparr>)"
  using leer_todos_buffer [of "nuevo_SensorVibracion i" vals]
  by (simp add: nuevo_SensorVibracion_def ultimos_def)

lemma leer_todos_nuevo_M:
  "length vals \<le> 5 \<Longrightarrow>
   leer_todos vals (nuevo_SensorMovimento i) = Inr ((nuevo_SensorMovimento i)\<lparr>buffer := vals\<rparr>)"
  using leer_todos_buffer [of "nuevo_SensorMovimento i" vals]
  by (simp add: nuevo_SensorMovimento_def ultimos_def)

text \<open>
  Claim C5. For a temperature sensor \<open>promedio\<close> returns a value and \<open>en_alerta\<close> returns
  whether that value is at least \<open>umbral\<close>, whose default is 80. A new sensor (window 5)
  that has read 90, 104 and 156 has the average 350/3, printed as 116.67, and is in alert;
  one that has read 10 and 20 is not.
\<close>

theorem temperatura_en_alerta:
  "(\<forall>s umbral. clase s = SensorTemperatura umbral \<longrightarrow>
      (\<exists>p. promedio s = Inr p \<and> en_alerta s = Inr (umbral \<le> p)))
   \<and> clase (nuevo_SensorTemperatura i) = SensorTemperatura 80
   \<and> ventana (nuevo_SensorTemperatura i) = 5
   \<and> (\<exists>s'. leer_todos [90, 104, 156] (nuevo_SensorTemperatura i) = Inr s'
         \<and> promedio s' = Inr (350 / 3) \<and> formato_2f (350 / 3) = ''116.67''
         \<and> en_alerta s' = Inr True)
   \<and> (\<exists>s'. leer_todos [10, 20] (nuevo_SensorTemperatura i) = Inr s'
         \<and> en_alerta s' = Inr False)"
proof -
  have general: "\<exists>p. promedio s = Inr p \<and> en_alerta s = Inr (umbral \<le> p)"
    if "clase s = SensorTemperatura umbral" for s umbral
    using that by (simp add: en_alerta_def promedio_total bind_def)
  have defaults: "clase (nuevo_SensorTemperatura i) = SensorTemperatura 80"
      "ventana (nuevo_SensorTemperatura i) = 5"
    by (simp_all add: nuevo_SensorTemperatura_def)
  have fmt: "formato_2f (350 / 3) = ''116.67''"
    by (simp add: formato_2f_def redondear_par_def digito_def Let_def decimal.simps)
  have hot: "promedio ((nuevo_SensorTemperatura i)\<lparr>buffer := [90, 104, 156]\<rparr>) = Inr (350 / 3)"
      "en_alerta ((nuevo_SensorTemperatura i)\<lparr>buffer := [90, 104, 156]\<rparr>) = Inr True"
    by (simp_all add: en_alerta_def promedio_total media_def bind_def nuevo_SensorTemperatura_def)
  have cold: "en_alerta ((nuevo_SensorTemperatura i)\<lparr>buffer := [10, 20]\<rparr>) = Inr False"
    by (simp add: en_alerta_def promedio_total media_def bind_def nuevo_SensorTemperatura_def)
  from general defaults fmt hot cold show ?thesis
    by (simp add: leer_todos_nuevo_T del: leer_todos.simps)
qed

theorem temperatura_en_alerta_witness:
  "clase (nuevo_SensorTemperatura ''T1''\<lparr>buffer := [79, 81]\<rparr>) = SensorTemperatura 80
   \<and> promedio (nuevo_SensorTemperatura ''T1''\<lparr>buffer := [79, 81]\<rparr>) = Inr 80
   \<and> en_alerta (nuevo_SensorTemperatura ''T1''\<lparr>buffer := [79, 81]\<rparr>) = Inr True"
proof -
  let ?s = "nuevo_SensorTemperatura ''T1''\<lparr>buffer := [79, 81]\<rparr>"
  have c: "clase ?s = SensorTemperatura 80" by (simp add: nuevo_SensorTemperatura_def)
  have p: "promedio ?s = Inr 80" by (simp add: promedio_def mean_def nuevo_SensorTemperatura_def)
  from temperatura_en_alerta [of "''T1''"] c
  have "\<exists>p. promedio ?s = Inr p \<and> en_alerta ?s = Inr (80 \<le> p)" by blast
  with c p show ?thesis by simp
qed

text \<open>
  Claim C6. For a vibration sensor \<open>en_alerta\<close> returns whether the absolute value of
  \<open>promedio\<close> is at least \<open>rms_umbral\<close>, whose default is 2.5: the absolute average, not a
  root mean square. A new sensor that has read 0.5, 1.0 and 2.0 has the average 7/6,
  printed as 1.17, and is not in alert; one that has read 3.0 twice is.
\<close>

theorem vibracion_en_alerta:
  "(\<forall>s rms_umbral. clase s = SensorVibracion rms_umbral \<longrightarrow>
      (\<exists>p. promedio s = Inr p \<and> en_alerta s = Inr (rms_umbral \<le> \<bar>p\<bar>)))
   \<and> clase (nuevo_SensorVibracion i) = SensorVibracion (5 / 2)
   \<and> (\<exists>s'. leer_todos [1 / 2, 1, 2] (nuevo_SensorVibracion i) = Inr s'
         \<and> promedio s' = Inr (7 / 6) \<and> formato_2f (7 / 6) = ''1.17''
         \<and> en_alerta s' = Inr False)
   \<and> (\<exists>s'. leer_todos [3, 3] (nuevo_SensorVibracion i) = Inr s'
         \<and> en_alerta s' = Inr True)"
proof -
  have general: "\<exists>p. promedio s = Inr p \<and> en_alerta s = Inr (rms_umbral \<le> \<bar>p\<bar>)"
    if "clase s = SensorVibracion rms_umbral" for s rms_umbral
    using that by (simp add: en_alerta_def promedio_total bind_def)
  have defaults: "clase (nuevo_SensorVibracion i) = SensorVibracion (5 / 2)"
    by (simp add: nuevo_SensorVibracion_def)
  have fmt: "formato_2f (7 / 6) = ''1.17''"
    by (simp add: formato_2f_def redondear_par_def digito_def Let_def decimal.simps)
  have low: "promedio ((nuevo_SensorVibracion i)\<lparr>buffer := [1 / 2, 1, 2]\<rparr>) = Inr (7 / 6)"
      "en_alerta ((nuevo_SensorVibracion i)\<lparr>buffer := [1 / 2, 1, 2]\<rparr>) = Inr False"
    by (simp_all add: en_alerta_def promedio_total media_def bind_def nuevo_SensorVibracion_def)
  have high: "en_alerta ((nuevo_SensorVibracion i)\<lparr>buffer := [3, 3]\<rparr>) = Inr True"
    by (simp add: en_alerta_def promedio_total media_def bind_def nuevo_SensorVibracion_def)
  from general defaults fmt low high show ?thesis
    by (simp add: leer_todos_nuevo_V del: leer_todos.simps)
qed

theorem vibracion_en_alerta_witness:
  "clase (nuevo_SensorVibracion ''V1''\<lparr>buffer := [- 2, - 4]\<rparr>) = SensorVibracion (5 / 2)
   \<and> promedio (nuevo_SensorVibracion ''V1''\<lparr>buffer := [- 2, - 4]\<rparr>) = Inr (- 3)
   \<and> en_alerta (nuevo_SensorVibracion ''V1''\<lparr>buffer := [- 2, - 4]\<rparr>) = Inr True"
proof -
  let ?s = "nuevo_SensorVibracion ''V1''\<lparr>buffer := [- 2, - 4]\<rparr>"
  have c: "clase ?s = SensorVibracion (5 / 2)" by (simp add: nuevo_SensorVibracion_def)
  have p: "promedio ?s = Inr (- 3)" by (simp add: promedio_def mean_def nuevo_SensorVibracion_def)
  from vibracion_en_alerta [of "''V1''"] c
  have "\<exists>p. promedio ?s = Inr p \<and> en_alerta ?s = Inr (5 / 2 \<le> \<bar>p\<bar>)" by blast
  with c p show ?thesis by simp
qed



text \<open>
  The readings 0.0, 1.0, 0.2, 1.5 of \<open>__main__\<close>: their mean is 27/40 and their sample
  variance 587/1200, below 1.
\<close>

lemma stdev_movimiento: "stdev [0, 1, 1 / 5, 3 / 2] = Inr (sqrt (587 / 1200))"
  by (simp add: stdev_def Let_def power2_eq_square)

lemma en_alerta_movimiento:
  "en_alerta ((nuevo_SensorMovimento i)\<lparr>buffer := [0, 1, 1 / 5, 3 / 2]\<rparr>) = Inr False"
  using stdev_movimiento by (simp add: en_alerta_def nuevo_SensorMovimento_def bind_def)

lemma en_alerta_prefijos:
  "en_alerta ((nuevo_SensorMovimento i)\<lparr>buffer := [0]\<rparr>) = Inr False"
  "en_alerta ((nuevo_SensorMovimento i)\<lparr>buffer := [0, 1]\<rparr>) = Inr False"
  "en_alerta ((nuevo_SensorMovimento i)\<lparr>buffer := [0, 1, 1 / 5]\<rparr>) = Inr False"
  by (simp_all add: en_alerta_def stdev_def Let_def bind_def nuevo_SensorMovimento_def
      power2_eq_square)

text \<open>
  Claim C4, as stated: a new motion sensor (threshold 1, no calibration) that has read
  0.0, 1.0, 0.2 and 1.5 is in alert. It is not.
\<close>

theorem movimiento_ejemplo_counterexample:
  "bind (leer_todos [0, 1, 1 / 5, 3 / 2] (nuevo_SensorMovimento ''M1'')) en_alerta \<noteq> Inr True"
  by (simp add: leer_todos_nuevo_M en_alerta_movimiento bind_def del: leer_todos.simps)

text \<open>
  Claim C4, amended. After a new motion sensor (threshold 1, no calibration) has read
  0.0, 1.0, 0.2 and 1.5, the sample standard deviation of its buffer is the square root of
  587/1200, about 0.70 and below 1, and \<open>en_alerta\<close> returns \<open>False\<close>, as it does after
  each of the first three readings.
\<close>

theorem movimiento_ejemplo:
  "bind (leer_todos [0, 1, 1 / 5, 3 / 2] (nuevo_SensorMovimento i)) (\<lambda>s. stdev (buffer s))
     = Inr (sqrt (587 / 1200))
   \<and> sqrt (587 / 1200) < 1
   \<and> clase (nuevo_SensorMovimento i) = SensorMovimento 1
   \<and> calibracion (nuevo_SensorMovimento i) = 0
   \<and> bind (leer_todos [0, 1, 1 / 5, 3 / 2] (nuevo_SensorMovimento i)) en_alerta = Inr False
   \<and> bind (leer_todos [0, 1, 1 / 5] (nuevo_SensorMovimento i)) en_alerta = Inr False
   \<and> bind (leer_todos [0, 1] (nuevo_SensorMovimento i)) en_alerta = Inr False
   \<and> bind (leer_todos [0] (nuevo_SensorMovimento i)) en_alerta = Inr False"
proof -
  have "clase (nuevo_SensorMovimento i) = SensorMovimento 1"
      "calibracion (nuevo_SensorMovimento i) = 0"
    by (simp_all add: nuevo_SensorMovimento_def)
  then show ?thesis
    by (simp add: leer_todos_nuevo_M en_alerta_movimiento en_alerta_prefijos
        stdev_movimiento bind_def del: leer_todos.simps)
qed

subsection \<open>Evaluation and notification\<close>

text \<open>
  Each call of \<open>enviar\<close> prints one line, so the lines printed count the calls. The loops
  are folds over the notifiers and over the alarming sensors.
\<close>

lemma enviar_length: "length (enviar n msg out) = Suc (length out)"
  by (cases n) simp_all

lemma enviar_a_todos_foldl:
  "enviar_a_todos ns msg out = foldl (\<lambda>out n. enviar n msg out) out ns"
  by (induction ns arbitrary: out) simp_all

lemma foldl_enviar_length:
  "length (foldl (\<lambda>out n. enviar n msg out) out ns) = length out + length ns"
  by (induction ns arbitrary: out) (simp_all add: enviar_length)

lemma foldl_alertas_length:
  "length (foldl (\<lambda>out s. foldl (\<lambda>out n. enviar n (f s) out) out ns) out ss)
     = length out + length ss * length ns"
  by (induction ss arbitrary: out) (simp_all add: foldl_enviar_length)

lemma evaluar_desde_foldl:
  "evaluar_desde rs ns h out =
     Inr (foldl (\<lambda>out s. foldl (\<lambda>out n. enviar n (mensaje_alerta s) out) out ns) out
            (filter alarmado (map h rs)))"
proof (induction rs arbitrary: out)
  case Nil
  show ?case by simp
next
  case (Cons r rs)
  obtain b where b: "en_alerta (h r) = Inr b"
    using en_alerta_total by blast
  show ?case
  proof (cases b)
    case True
    with b have "alarmado (h r)" by (simp add: alarmado_def)
    with b True show ?thesis
      by (simp add: bind_def promedio_total Cons.IH enviar_a_todos_foldl mensaje_alerta_def)
  next
    case False
    with b have "\<not> alarmado (h r)" by (simp add: alarmado_def)
    with b False show ?thesis
      by (simp add: bind_def Cons.IH)
  qed
qed

text \<open>
  Claim C2. \<open>evaluar_y_notificar\<close> does not raise. It goes through the sensors in the
  order of the list, keeps those whose \<open>en_alerta\<close> is true, and for each of them calls
  \<open>enviar\<close> on every notifier, in the order of the list, with the one message of that
  sensor: \<open>ALERTA\<close> with the character U+E092, its id and its average with two decimals.
  It makes one call per alarming sensor and notifier, so 4 calls for 2 alarming sensors
  and 2 notifiers.
\<close>

theorem evaluar_y_notificar_envios:
  "\<exists>out'. evaluar_y_notificar g h out = Inr out'
     \<and> out' = foldl (\<lambda>out s. foldl (\<lambda>out n. enviar n (mensaje_alerta s) out) out
                                 (notificadores g))
                out (filter alarmado (map h (sensores g)))
     \<and> length out' = length out
          + length (filter alarmado (map h (sensores g))) * length (notificadores g)
     \<and> (length (filter alarmado (map h (sensores g))) = 2 \<and> length (notificadores g) = 2
          \<longrightarrow> length out' = length out + 4)"
  by (simp add: evaluar_y_notificar_def evaluar_desde_foldl foldl_alertas_length)

lemma alarmados_ejemplo:
  "filter alarmado (map almacen_ejemplo (sensores gestor_ejemplo)) = [almacen_ejemplo 0, almacen_ejemplo 1]"
  using en_alerta_movimiento [of "''M1''"]
  by (simp add: gestor_ejemplo_def almacen_ejemplo_def alarmado_def en_alerta_def promedio_total
      media_def bind_def nuevo_SensorTemperatura_def nuevo_SensorVibracion_def)

lemma mensajes_ejemplo:
  "mensaje_alerta (almacen_ejemplo 0) =
     ''ALERTA'' @ [CHR 0xEE, CHR 0x82, CHR 0x92] @ '' Sensor T1 en umbral (avg=116.67)''"
  "mensaje_alerta (almacen_ejemplo (Suc 0)) =
     ''ALERTA'' @ [CHR 0xEE, CHR 0x82, CHR 0x92] @ '' Sensor V1 en umbral (avg=3.00)''"
  by (simp_all add: mensaje_alerta_def u_e092_def almacen_ejemplo_def media_def formato_2f_def
      redondear_par_def digito_def Let_def decimal.simps
      nuevo_SensorTemperatura_def nuevo_SensorVibracion_def)

theorem evaluar_y_notificar_envios_witness:
  "evaluar_y_notificar gestor_ejemplo almacen_ejemplo [] =
     Inr [''[EMAIL a example@example.com] ALERTA'' @ [CHR 0xEE, CHR 0x82, CHR 0x92]
            @ '' Sensor T1 en umbral (avg=116.67)'',
          ''[WEBHOOK http://webhook.com] ALERTA'' @ [CHR 0xEE, CHR 0x82, CHR 0x92]
            @ '' Sensor T1 en umbral (avg=116.67)'',
          ''[EMAIL a example@example.com] ALERTA'' @ [CHR 0xEE, CHR 0x82, CHR 0x92]
            @ '' Sensor V1 en umbral (avg=3.00)'',
          ''[WEBHOOK http://webhook.com] ALERTA'' @ [CHR 0xEE, CHR 0x82, CHR 0x92]
            @ '' Sensor V1 en umbral (avg=3.00)'']
   \<and> length (filter alarmado (map almacen_ejemplo (sensores gestor_ejemplo))) = 2
   \<and> length (notificadores gestor_ejemplo) = 2"
proof -
  have ns: "notificadores gestor_ejemplo = [NotificadorEmail ''example@example.com'',
                      NotificadorWebhook ''http://webhook.com'']"
    by (simp add: gestor_ejemplo_def)
  from evaluar_y_notificar_envios [of gestor_ejemplo almacen_ejemplo "[]"]
  show ?thesis
    by (simp add: alarmados_ejemplo mensajes_ejemplo ns)
qed

subsection \<open>The lights\<close>

text \<open>
  Claim C7. Take a controller whose lights are off, as they are on a new one, and a motion
  sensor that is in alert at two calls of \<open>verificar_movimiento\<close> in a row. The first call
  prints \<open>LUCES ENCENDIDAS\<close> once and turns the flag on; the second prints nothing and
  leaves the controller as it is. A call at which the sensor is not in alert prints
  \<open>No hay suficiente movimiento detectado\<close> as its last line, after \<open>LUCES APAGADAS\<close>
  when the lights were on and alone when they were already off.
\<close>

theorem luces_transiciones:
  "(en_alerta (h (sensor c)) = Inr True \<and> en_alerta (h2 (sensor c)) = Inr True
      \<and> \<not> luces_encendidas c \<longrightarrow>
      (\<exists>c1. verificar_movimiento c h out = Inr (c1, out @ [''LUCES ENCENDIDAS''])
          \<and> luces_encendidas c1
          \<and> verificar_movimiento c1 h2 out2 = Inr (c1, out2)))
   \<and> (en_alerta (h (sensor c)) = Inr False \<longrightarrow>
      (\<exists>c'. verificar_movimiento c h out =
               Inr (c', out @ (if luces_encendidas c then [''LUCES APAGADAS''] else [])
                        @ [''No hay suficiente movimiento detectado''])
          \<and> \<not> luces_encendidas c'))"
  by (simp add: verificar_movimiento_def bind_def encender_luces_def apagar_luces_def)

lemma en_alerta_almacen_movimiento:
  "en_alerta (almacen_movimiento [0, 2] r) = Inr True"
  "en_alerta (almacen_movimiento [0, 2, 4] r) = Inr True"
  "en_alerta (almacen_movimiento [0, 2, 1, 1, 1] r) = Inr False"
  by (simp_all add: almacen_movimiento_def en_alerta_def stdev_def Let_def bind_def
      nuevo_SensorMovimento_def)

theorem luces_transiciones_witness:
  "(\<exists>c1. verificar_movimiento (nuevo_ControladorLuces 0) (almacen_movimiento [0, 2]) []
            = Inr (c1, [''LUCES ENCENDIDAS''])
        \<and> verificar_movimiento c1 (almacen_movimiento [0, 2, 4]) [''LUCES ENCENDIDAS'']
            = Inr (c1, [''LUCES ENCENDIDAS'']))
   \<and> (\<exists>c'. verificar_movimiento (nuevo_ControladorLuces 0) (almacen_movimiento [0, 2, 1, 1, 1]) []
            = Inr (c', [''No hay suficiente movimiento detectado'']))"
proof -
  let ?c = "nuevo_ControladorLuces 0"
  have off: "\<not> luces_encendidas ?c" by (simp add: nuevo_ControladorLuces_def)
  from luces_transiciones [of "almacen_movimiento [0, 2]" ?c "almacen_movimiento [0, 2, 4]"
      "[]" "[''LUCES ENCENDIDAS'']"] off
  have on: "\<exists>c1. verificar_movimiento ?c (almacen_movimiento [0, 2]) []
            = Inr (c1, [''LUCES ENCENDIDAS''])
        \<and> verificar_movimiento c1 (almacen_movimiento [0, 2, 4]) [''LUCES ENCENDIDAS'']
            = Inr (c1, [''LUCES ENCENDIDAS''])"
    by (auto simp add: en_alerta_almacen_movimiento)
  from luces_transiciones [of "almacen_movimiento [0, 2, 1, 1, 1]" ?c _ "[]"] off
  have "\<exists>c'. verificar_movimiento ?c (almacen_movimiento [0, 2, 1, 1, 1]) []
            = Inr (c', [''No hay suficiente movimiento detectado''])"
    by (auto simp add: en_alerta_almacen_movimiento)
  with on show ?thesis by blast
qed

lemma verificar_movimiento_total:
  "\<exists>b c'out. en_alerta (h (sensor c)) = Inr b
      \<and> verificar_movimiento c h out = Inr c'out
      \<and> luces_encendidas (fst c'out) = b \<and> sensor (fst c'out) = sensor c"
proof -
  obtain b where b: "en_alerta (h (sensor c)) = Inr b"
    using en_alerta_total by blast
  then show ?thesis
    by (cases b) (auto simp add: verificar_movimiento_def bind_def encender_luces_def
        apagar_luces_def)
qed

text \<open>
  Claim C8. The flag \<open>luces_encendidas\<close> of a new controller is false. Every call of
  \<open>verificar_movimiento\<close> returns normally and leaves the flag equal to what \<open>en_alerta\<close>
  returns on the motion sensor as it is at that call. Between those calls the flag stays
  as it is: a reading on any sensor, the bound one included, and an evaluation of an alert
  manager leave the controller unchanged.
\<close>

theorem luces_reflejan_ultima_verificacion:
  "luces_encendidas (nuevo_ControladorLuces r) = False
   \<and> (\<exists>b c' out'. en_alerta (h (sensor c)) = Inr b
         \<and> verificar_movimiento c h out = Inr (c', out')
         \<and> luces_encendidas c' = b)
   \<and> (\<exists>b w'. en_alerta (almacen w (sensor (controlador w))) = Inr b
         \<and> ejecutar Verificar w = Inr w'
         \<and> luces_encendidas (controlador w') = b
         \<and> sensor (controlador w') = sensor (controlador w)
         \<and> almacen w' = almacen w)
   \<and> (\<exists>w'. ejecutar (Leer r valor) w = Inr w' \<and> controlador w' = controlador w)
   \<and> (\<exists>w'. ejecutar (Evaluar g) w = Inr w' \<and> controlador w' = controlador w)"
proof -
  have nuevo: "luces_encendidas (nuevo_ControladorLuces r) = False"
    by (simp add: nuevo_ControladorLuces_def)
  from verificar_movimiento_total [of h c out]
  have direct: "\<exists>b c' out'. en_alerta (h (sensor c)) = Inr b
         \<and> verificar_movimiento c h out = Inr (c', out')
         \<and> luces_encendidas c' = b"
    by force
  from verificar_movimiento_total [of "almacen w" "controlador w" "consola w"]
  have paso: "\<exists>b w'. en_alerta (almacen w (sensor (controlador w))) = Inr b
         \<and> ejecutar Verificar w = Inr w'
         \<and> luces_encendidas (controlador w') = b
         \<and> sensor (controlador w') = sensor (controlador w)
         \<and> almacen w' = almacen w"
    by (auto simp add: bind_def split: prod.splits)
  have lectura: "\<exists>w'. ejecutar (Leer r valor) w = Inr w' \<and> controlador w' = controlador w"
    by (simp add: leer_ref_def leer_total bind_def)
  have evaluacion: "\<exists>w'. ejecutar (Evaluar g) w = Inr w' \<and> controlador w' = controlador w"
    by (simp add: evaluar_y_notificar_def evaluar_desde_foldl bind_def)
  from nuevo direct paso lectura evaluacion show ?thesis by blast
qed

end
